theory Spec2Isabelle
  imports Main "HOL-Library.Sublist"
begin

section \<open>Errors\<close>

text \<open>
  The source throws two kinds of \<open>Error\<close>: the constructor of \<open>FuzzyMatchSettings\<close>
  throws one of three messages, each naming the offending field, and
  \<open>fuzzySearchByProperty\<close> throws when no string can be compared. A thrown error is the
  \<open>Inl\<close> branch of the result.
\<close>

datatype setting =
    Minimum_length_for_search
  | Minimum_length_for_fuzzy_match
  | Percentage_allowed_mismatch

datatype error =
    InvalidSetting setting
  | StringPropertyRequired

section \<open>FuzzyMatchSettings\<close>

text \<open>
  The class has four public fields. Numbers are modelled as integers (the data model of
  the settings is integral), an optional parameter as an \<open>option\<close>, \<open>None\<close> being
  \<open>undefined\<close>.
\<close>

record FuzzyMatchSettings =
  minimum_length_for_search :: int
  minimum_length_for_fuzzy_match :: int
  percentage_allowed_mismatch :: int
  case_sensitive_match :: bool

definition maximum_allowed_mismatch :: int where
  "maximum_allowed_mismatch = 50"

definition default__minimum_length_for_search :: int where
  "default__minimum_length_for_search = 1"

definition default__minimum_length_for_fuzzy_match :: int where
  "default__minimum_length_for_fuzzy_match = 5"

definition default__percentage_allowed_mismatch :: int where
  "default__percentage_allowed_mismatch = 25"

definition default__case_sensitive_match :: bool where
  "default__case_sensitive_match = False"

text \<open>
  \<open>if (!x) x = default\<close>: the negation of a number is true for \<open>undefined\<close> and for \<open>0\<close>,
  the negation of a boolean for \<open>undefined\<close> and for \<open>false\<close>.
\<close>

definition number_or_default :: "int option \<Rightarrow> int \<Rightarrow> int" where
  "number_or_default x d = (case x of None \<Rightarrow> d | Some n \<Rightarrow> if n = 0 then d else n)"

definition boolean_or_default :: "bool option \<Rightarrow> bool \<Rightarrow> bool" where
  "boolean_or_default x d = (case x of None \<Rightarrow> d | Some b \<Rightarrow> if \<not> b then d else b)"

definition new_FuzzyMatchSettings ::
  "int option \<Rightarrow> int option \<Rightarrow> int option \<Rightarrow> bool option \<Rightarrow> error + FuzzyMatchSettings" where
  "new_FuzzyMatchSettings minimum_length_for_search' minimum_length_for_fuzzy_match'
      percentage_allowed_mismatch' case_sensitive_match' =
    (let mls = number_or_default minimum_length_for_search' default__minimum_length_for_search;
         mlf = number_or_default minimum_length_for_fuzzy_match'
                 default__minimum_length_for_fuzzy_match;
         pam = number_or_default percentage_allowed_mismatch'
                 default__percentage_allowed_mismatch;
         csm = boolean_or_default case_sensitive_match' default__case_sensitive_match
     in if mls \<le> 0 then Inl (InvalidSetting Minimum_length_for_search)
        else if mlf \<le> 0 then Inl (InvalidSetting Minimum_length_for_fuzzy_match)
        else if pam < 0 \<or> pam > maximum_allowed_mismatch
          then Inl (InvalidSetting Percentage_allowed_mismatch)
        else Inr \<lparr> minimum_length_for_search = mls,
                   minimum_length_for_fuzzy_match = mlf,
                   percentage_allowed_mismatch = pam,
                   case_sensitive_match = csm \<rparr>)"

text \<open>The object \<open>new FuzzyMatchSettings()\<close> builds.\<close>

definition default_settings :: FuzzyMatchSettings where
  "default_settings =
     \<lparr> minimum_length_for_search = 1, minimum_length_for_fuzzy_match = 5,
       percentage_allowed_mismatch = 25, case_sensitive_match = False \<rparr>"

section \<open>Strings and values\<close>

text \<open>
  A string of the source is a sequence of code units. The model takes the code units
  \<open>0\<close> to \<open>255\<close> (the characters of Latin-1), one \<^typ>\<open>char\<close> each, so that \<open>length\<close>
  is the \<open>length\<close> property of the source. On such strings \<open>toLowerCase\<close> maps each
  code unit on its own: the letters \<open>A\<close> to \<open>Z\<close>, and the letters \<open>0xC0\<close> to \<open>0xDE\<close>
  other than the sign \<open>0xD7\<close>, move up by 32; every other code unit stays.
\<close>

definition lower_unit :: "char \<Rightarrow> char" where
  "lower_unit c =
     (let n = (of_char c :: nat)
      in if (65 \<le> n \<and> n \<le> 90) \<or> (192 \<le> n \<and> n \<le> 222 \<and> n \<noteq> 215)
         then char_of (n + 32) else c)"

definition toLowerCase :: "string \<Rightarrow> string" where
  "toLowerCase s = map lower_unit s"

text \<open>
  \<open>s[i]\<close> is \<open>undefined\<close> outside the string: \<open>None\<close>. The operator \<open>!==\<close> of the source
  compares two such results.
\<close>

definition js_index :: "string \<Rightarrow> nat \<Rightarrow> char option" where
  "js_index s i = (if i < length s then Some (s ! i) else None)"

text \<open>\<open>s.includes(t)\<close>: \<open>t\<close> occurs in \<open>s\<close> at some position, as a contiguous run.\<close>

fun js_includes :: "string \<Rightarrow> string \<Rightarrow> bool" where
  "js_includes [] t = (t = [])"
| "js_includes (c # cs) t = (prefix t (c # cs) \<or> js_includes cs t)"

text \<open>
  The values a property can hold: \<open>undefined\<close>, \<open>null\<close>, booleans, integral numbers and
  strings. \<open>String(v)\<close> is the text of a value.
\<close>

datatype jsval = VUndefined | VNull | VBool bool | VNum int | VStr string

definition digit_char :: "nat \<Rightarrow> char" where
  "digit_char d = char_of (48 + d)"

fun decimal :: "nat \<Rightarrow> string" where
  "decimal n = (if n < 10 then [digit_char n] else decimal (n div 10) @ [digit_char (n mod 10)])"

declare decimal.simps [simp del]

fun js_String :: "jsval \<Rightarrow> string" where
  "js_String VUndefined = ''undefined''"
| "js_String VNull = ''null''"
| "js_String (VBool b) = (if b then ''true'' else ''false'')"
| "js_String (VNum n) = (if n < 0 then CHR ''-'' # decimal (nat (- n)) else decimal (nat n))"
| "js_String (VStr s) = s"

fun typeof_string :: "jsval \<Rightarrow> bool" where
  "typeof_string (VStr s) = True"
| "typeof_string v = False"

section \<open>Items\<close>

text \<open>
  An element of \<open>items\<close> is a string or an object; an object is the list of its own
  properties. \<open>x[k]\<close> on an object is the value stored under \<open>k\<close>, \<open>undefined\<close> when
  there is none. On a string, \<open>x[k]\<close> is its length for \<open>k = "length"\<close>, the one-character
  string at position \<open>i\<close> when \<open>k\<close> is the decimal numeral of an index \<open>i\<close> of the string,
  and \<open>undefined\<close> otherwise. The names an item inherits from a prototype (its methods)
  are outside the model. The key \<open>null\<close> is converted to the name \<open>"null"\<close>, which no
  string has.
\<close>

datatype item = SItem string | OItem "(string \<times> jsval) list"

fun is_string_item :: "item \<Rightarrow> bool" where
  "is_string_item (SItem s) = True"
| "is_string_item (OItem ps) = False"

definition property_key :: "string option \<Rightarrow> string" where
  "property_key itemProperty = (case itemProperty of None \<Rightarrow> ''null'' | Some k \<Rightarrow> k)"

fun get_property :: "item \<Rightarrow> string \<Rightarrow> jsval" where
  "get_property (SItem s) k =
     (if k = ''length'' then VNum (int (length s))
      else case find (\<lambda>i. decimal i = k) [0..<length s] of
             Some i \<Rightarrow> VStr [s ! i]
           | None \<Rightarrow> VUndefined)"
| "get_property (OItem ps) k = (case map_of ps k of Some v \<Rightarrow> v | None \<Rightarrow> VUndefined)"

section \<open>fuzzySearchByProperty\<close>

text \<open>
  The inner \<open>for\<close> loop of the fuzzy tier. It runs \<open>i\<close> from \<open>left\<close> to
  \<open>left + searchLength\<close>, adds one to \<open>current_mismatch_count\<close> at each position where
  the two characters differ, and leaves as soon as the count is above
  \<open>max_allowed_mismatch_count\<close>. Its result is the count when the loop is left.
\<close>

function for_loop :: "string \<Rightarrow> string \<Rightarrow> int \<Rightarrow> nat \<Rightarrow> nat \<Rightarrow> nat \<Rightarrow> int \<Rightarrow> int" where
  "for_loop searchString item' max_allowed_mismatch_count searchLength left i
      current_mismatch_count =
     (if i < left + searchLength then
        (if js_index searchString (i - left) \<noteq> js_index item' i then
           (if current_mismatch_count + 1 > max_allowed_mismatch_count
            then current_mismatch_count + 1
            else for_loop searchString item' max_allowed_mismatch_count searchLength left
                   (Suc i) (current_mismatch_count + 1))
         else for_loop searchString item' max_allowed_mismatch_count searchLength left
                (Suc i) current_mismatch_count)
      else current_mismatch_count)"
  by pat_completeness auto
termination
  by (relation "measure (\<lambda>(s, t, m, n, left, i, c). left + n - i)") auto

declare for_loop.simps [simp del]

text \<open>
  The \<open>while\<close> loop over the windows of one item: \<open>True\<close> when the item is pushed,
  \<open>False\<close> when the loop ends without a push.
\<close>

function while_loop :: "string \<Rightarrow> string \<Rightarrow> int \<Rightarrow> nat \<Rightarrow> nat \<Rightarrow> bool" where
  "while_loop searchString item' max_allowed_mismatch_count searchLength left =
     (if int left + int searchLength - 1 < int (length item') then
        (if for_loop searchString item' max_allowed_mismatch_count searchLength left left 0
              \<le> max_allowed_mismatch_count
         then True
         else while_loop searchString item' max_allowed_mismatch_count searchLength (Suc left))
      else False)"
  by pat_completeness auto
termination
  by (relation "measure (\<lambda>(s, t, m, n, left). Suc (length t) - left)") auto

declare while_loop.simps [simp del]

text \<open>The text \<open>_item\<close> of lines 166 to 173.\<close>

definition item_text :: "FuzzyMatchSettings \<Rightarrow> string option \<Rightarrow> item \<Rightarrow> string" where
  "item_text searchSettings itemProperty x =
     (case x of
        SItem s \<Rightarrow> if \<not> case_sensitive_match searchSettings then toLowerCase s else s
      | OItem ps \<Rightarrow>
          if \<not> case_sensitive_match searchSettings
          then toLowerCase (js_String (get_property x (property_key itemProperty)))
          else js_String (get_property x (property_key itemProperty)))"

text \<open>The \<open>for ... of\<close> loop over the items, with the list \<open>result\<close> it pushes to.\<close>

fun items_loop ::
  "FuzzyMatchSettings \<Rightarrow> string option \<Rightarrow> string \<Rightarrow> int \<Rightarrow> nat \<Rightarrow> item list \<Rightarrow> item list
     \<Rightarrow> item list" where
  "items_loop searchSettings itemProperty searchString mx searchLength [] result = result"
| "items_loop searchSettings itemProperty searchString mx searchLength (x # xs) result =
     items_loop searchSettings itemProperty searchString mx searchLength xs
       (if while_loop searchString (item_text searchSettings itemProperty x) mx searchLength 0
        then result @ [x] else result)"

text \<open>\<open>if (!searchSettings) searchSettings = new FuzzyMatchSettings()\<close>.\<close>

definition settings_or_default :: "FuzzyMatchSettings option \<Rightarrow> error + FuzzyMatchSettings" where
  "settings_or_default searchSettings =
     (case searchSettings of
        None \<Rightarrow> new_FuzzyMatchSettings None None None None
      | Some s \<Rightarrow> Inr s)"

text \<open>
  The exact tier returns \<open>items.filter((x) => String(x[itemProperty])...)\<close> in both of its
  branches: the statement before each \<open>return\<close>, which filters on the items themselves
  when the first one is a string, has no effect, since its value is dropped and \<open>filter\<close>
  leaves \<open>items\<close> as it is.
\<close>

definition fuzzySearchByProperty ::
  "string \<Rightarrow> item list \<Rightarrow> string option \<Rightarrow> FuzzyMatchSettings option \<Rightarrow> error + item list" where
  "fuzzySearchByProperty searchString items itemProperty searchSettings' =
     (if length searchString = 0 then Inr []
      else if length items = 0 then Inr []
      else if \<not> is_string_item (hd items)
              \<and> (itemProperty = None
                  \<or> \<not> typeof_string (get_property (hd items) (property_key itemProperty)))
        then Inl StringPropertyRequired
      else
        let searchLength = length searchString in
        case settings_or_default searchSettings' of
          Inl e \<Rightarrow> Inl e
        | Inr searchSettings \<Rightarrow>
            if int searchLength < minimum_length_for_search searchSettings then Inr []
            else if int searchLength < minimum_length_for_fuzzy_match searchSettings then
              (if case_sensitive_match searchSettings then
                 Inr (filter (\<lambda>x. js_includes
                        (js_String (get_property x (property_key itemProperty))) searchString)
                      items)
               else
                 Inr (filter (\<lambda>x. js_includes
                        (toLowerCase (js_String (get_property x (property_key itemProperty))))
                        (toLowerCase searchString))
                      items))
            else
              let searchString' =
                    (if \<not> case_sensitive_match searchSettings then toLowerCase searchString
                     else searchString);
                  max_allowed_mismatch_count =
                    (int searchLength * percentage_allowed_mismatch searchSettings) div 100
              in Inr (items_loop searchSettings itemProperty searchString'
                        max_allowed_mismatch_count searchLength items []))"

definition fuzzySearch ::
  "string \<Rightarrow> item list \<Rightarrow> FuzzyMatchSettings option \<Rightarrow> error + item list" where
  "fuzzySearch searchString items searchSettings =
     fuzzySearchByProperty searchString items None searchSettings"

section \<open>Notions of the specification\<close>

text \<open>
  The reference scan of the specification: a window is the run of \<open>len(query)\<close>
  characters of the text that starts at an offset, its mismatch count is the number of
  positions at which it differs from the query, counted over the whole window, and a text
  is accepted when some window, at an offset from \<open>0\<close> to
  \<open>len(text) - len(query)\<close>, has a count of at most the bound.
\<close>

definition window :: "string \<Rightarrow> nat \<Rightarrow> nat \<Rightarrow> string" where
  "window t left n = take n (drop left t)"

definition mismatch_count :: "string \<Rightarrow> string \<Rightarrow> nat" where
  "mismatch_count q w = length (filter (\<lambda>(a, b). a \<noteq> b) (zip q w))"

definition reference_scan :: "string \<Rightarrow> string \<Rightarrow> int \<Rightarrow> bool" where
  "reference_scan q t mx =
     list_ex (\<lambda>left. int (mismatch_count q (window t left (length q))) \<le> mx)
       [0 ..< Suc (length t) - length q]"

text \<open>
  \<open>toUpperCase\<close>, which the source never calls, on the strings of the model: the letters
  \<open>a\<close> to \<open>z\<close>, and \<open>0xE0\<close> to \<open>0xFE\<close> other than the sign \<open>0xF7\<close>, move down by 32,
  and the sharp s, \<open>0xDF\<close>, becomes the two letters \<open>SS\<close>. The upper-case forms of
  \<open>0xB5\<close> and \<open>0xFF\<close> are code units above 255, outside the model; the two are left as
  they are, and no statement below is about a string that holds one of them.
\<close>

definition upper_units :: "char \<Rightarrow> string" where
  "upper_units c =
     (let n = (of_char c :: nat)
      in if n = 223 then ''SS''
         else if (97 \<le> n \<and> n \<le> 122) \<or> (224 \<le> n \<and> n \<le> 254 \<and> n \<noteq> 247)
         then [char_of (n - 32)] else [c])"

definition toUpperCase :: "string \<Rightarrow> string" where
  "toUpperCase s = concat (map upper_units s)"

definition ascii :: "string \<Rightarrow> bool" where
  "ascii s = list_all (\<lambda>c. (of_char c :: nat) < 128) s"

text \<open>
  Replacing the text of an item: the string itself, or every string among the values of
  the properties of an object.
\<close>

fun map_value :: "(string \<Rightarrow> string) \<Rightarrow> jsval \<Rightarrow> jsval" where
  "map_value f (VStr s) = VStr (f s)"
| "map_value f v = v"

fun map_item :: "(string \<Rightarrow> string) \<Rightarrow> item \<Rightarrow> item" where
  "map_item f (SItem s) = SItem (f s)"
| "map_item f (OItem ps) = OItem (map (\<lambda>(k, v). (k, map_value f v)) ps)"

fun ascii_value :: "jsval \<Rightarrow> bool" where
  "ascii_value (VStr s) = ascii s"
| "ascii_value v = True"

fun ascii_item :: "item \<Rightarrow> bool" where
  "ascii_item (SItem s) = ascii s"
| "ascii_item (OItem ps) = list_all (\<lambda>(k, v). ascii_value v) ps"

text \<open>
  A replacement \<open>f\<close> of texts keeps the lower-case form of the texts of an item.
\<close>

fun keeps_lower_value :: "(string \<Rightarrow> string) \<Rightarrow> jsval \<Rightarrow> bool" where
  "keeps_lower_value f (VStr s) = (toLowerCase (f s) = toLowerCase s)"
| "keeps_lower_value f v = True"

fun keeps_lower :: "(string \<Rightarrow> string) \<Rightarrow> item \<Rightarrow> bool" where
  "keeps_lower f (SItem s) = (toLowerCase (f s) = toLowerCase s)"
| "keeps_lower f (OItem ps) = list_all (\<lambda>(k, v). keeps_lower_value f v) ps"

section \<open>Properties of the settings constructor\<close>

lemmas settings_defs =
  new_FuzzyMatchSettings_def number_or_default_def boolean_or_default_def
  maximum_allowed_mismatch_def default__minimum_length_for_search_def
  default__minimum_length_for_fuzzy_match_def default__percentage_allowed_mismatch_def
  default__case_sensitive_match_def default_settings_def

lemma new_FuzzyMatchSettings_no_arguments:
  "new_FuzzyMatchSettings None None None None = Inr default_settings"
  by (simp add: settings_defs)

lemma new_FuzzyMatchSettings_invariant:
  assumes "new_FuzzyMatchSettings a b c d = Inr st"
  shows "0 < minimum_length_for_search st \<and> 0 < minimum_length_for_fuzzy_match st
    \<and> 0 \<le> percentage_allowed_mismatch st \<and> percentage_allowed_mismatch st \<le> 50"
  using assms by (auto simp: new_FuzzyMatchSettings_def maximum_allowed_mismatch_def Let_def
        split: if_splits)

text \<open>
  C7. A zero passed for a numeric parameter (and \<open>false\<close> for the boolean one) is replaced
  by the default of the field before the validation: the constructor returns what it
  returns when the parameter is absent, whatever the other parameters are, and with a zero
  for every numeric parameter it raises nothing and builds the settings 1, 5, 25, false.
\<close>

theorem falsy_parameter_is_default:
  "new_FuzzyMatchSettings (Some 0) b c d = new_FuzzyMatchSettings None b c d
   \<and> new_FuzzyMatchSettings a (Some 0) c d = new_FuzzyMatchSettings a None c d
   \<and> new_FuzzyMatchSettings a b (Some 0) d = new_FuzzyMatchSettings a b None d
   \<and> new_FuzzyMatchSettings a b c (Some False) = new_FuzzyMatchSettings a b c None
   \<and> new_FuzzyMatchSettings (Some 0) None None None = Inr default_settings
   \<and> new_FuzzyMatchSettings (Some 0) (Some 0) (Some 0) (Some False)
       = Inr \<lparr> minimum_length_for_search = 1, minimum_length_for_fuzzy_match = 5,
               percentage_allowed_mismatch = 25, case_sensitive_match = False \<rparr>"
  by (simp add: settings_defs)

theorem falsy_parameter_is_default_witness:
  "new_FuzzyMatchSettings (Some 0) (Some 7) (Some 30) (Some True)
     = new_FuzzyMatchSettings None (Some 7) (Some 30) (Some True)
   \<and> new_FuzzyMatchSettings (Some 0) (Some 7) (Some 30) (Some True)
     = Inr \<lparr> minimum_length_for_search = 1, minimum_length_for_fuzzy_match = 7,
             percentage_allowed_mismatch = 30, case_sensitive_match = True \<rparr>"
  using falsy_parameter_is_default [of "Some 7" "Some 30" "Some True"]
  by (simp add: settings_defs)

text \<open>
  C8. With the first two parameters valid or absent (absent, zero or positive), a
  percentage of 51 raises the error that names \<open>percentage_allowed_mismatch\<close>, and a
  percentage of 50 builds settings holding 50.
\<close>

theorem percentage_51_rejected_50_accepted:
  assumes "a = None \<or> (\<exists>n. a = Some n \<and> 0 \<le> n)"
    and "b = None \<or> (\<exists>n. b = Some n \<and> 0 \<le> n)"
  shows "new_FuzzyMatchSettings a b (Some 51) d = Inl (InvalidSetting Percentage_allowed_mismatch)
    \<and> new_FuzzyMatchSettings a b (Some 50) d
        = Inr \<lparr> minimum_length_for_search = number_or_default a 1,
                minimum_length_for_fuzzy_match = number_or_default b 5,
                percentage_allowed_mismatch = 50,
                case_sensitive_match = boolean_or_default d False \<rparr>"
  using assms by (auto simp: settings_defs)

theorem percentage_51_rejected_50_accepted_witness:
  "new_FuzzyMatchSettings None (Some 3) (Some 51) None
      = Inl (InvalidSetting Percentage_allowed_mismatch)
   \<and> new_FuzzyMatchSettings None (Some 3) (Some 50) None
      = Inr \<lparr> minimum_length_for_search = 1, minimum_length_for_fuzzy_match = 3,
              percentage_allowed_mismatch = 50, case_sensitive_match = False \<rparr>"
  using percentage_51_rejected_50_accepted [of None "Some 3" None]
  by (simp add: number_or_default_def boolean_or_default_def)

section \<open>Guards and the exact tier\<close>

text \<open>
  C10. On an empty list of items the search returns the empty list, for every search
  string, every item property (\<open>null\<close> too) and every settings argument: the test of
  line 124 comes before the test of the first element, so the error of line 126 is never
  raised there.
\<close>

theorem empty_items_empty_result:
  "fuzzySearchByProperty searchString [] itemProperty searchSettings = Inr []"
  by (simp add: fuzzySearchByProperty_def)

theorem empty_items_empty_result_witness:
  "fuzzySearchByProperty ''abc'' [] None None = Inr []
   \<and> fuzzySearchByProperty ''abc'' [] (Some ''name'') (Some default_settings) = Inr []"
  using empty_items_empty_result [of "''abc''" None None]
    empty_items_empty_result [of "''abc''" "Some ''name''" "Some default_settings"]
  by simp

text \<open>
  C2. With the default settings, the search string \<open>helo\<close> is in the exact tier (its
  length 4 is at least 1 and below 5), and \<open>fuzzySearch\<close> returns the empty list on the
  items \<open>hello\<close>, \<open>world\<close>, \<open>help\<close>.
\<close>

theorem helo_default_settings:
  "settings_or_default None = Inr default_settings
   \<and> minimum_length_for_search default_settings \<le> int (length ''helo'')
   \<and> int (length ''helo'') < minimum_length_for_fuzzy_match default_settings
   \<and> fuzzySearch ''helo'' [SItem ''hello'', SItem ''world'', SItem ''help''] None = Inr []"
  by code_simp

text \<open>
  C1, at an input where the code departs from it. With the default settings the search
  string \<open>he\<close> is in the exact tier and the item \<open>hello\<close> contains it, yet \<open>fuzzySearch\<close>
  returns no item: the text compared is \<open>String(x[null])\<close>, which is \<open>undefined\<close>.
\<close>

theorem exact_tier_misses_string_item:
  "minimum_length_for_search default_settings \<le> int (length ''he'')
   \<and> int (length ''he'') < minimum_length_for_fuzzy_match default_settings
   \<and> sublist (toLowerCase ''he'') (toLowerCase ''hello'')
   \<and> fuzzySearch ''he'' [SItem ''hello''] None = Inr []"
  by code_simp

lemma js_includes_iff_sublist: "js_includes s t = sublist t s"
  by (induction s) (simp_all add: sublist_Cons_right)

lemma decimal_last: "decimal n \<noteq> [] \<and> last (decimal n) = digit_char (n mod 10)"
  by (induction n rule: decimal.induct) (subst decimal.simps, simp)+

lemma digit_char_not_l: "digit_char (n mod 10) \<noteq> CHR ''l''"
proof
  assume "digit_char (n mod 10) = CHR ''l''"
  then have "(of_char (digit_char (n mod 10)) :: nat) = of_char (CHR ''l'')" by simp
  moreover have "n mod 10 < 10" by simp
  ultimately show False by (simp add: digit_char_def)
qed

lemma decimal_not_null: "decimal i \<noteq> ''null''"
proof
  assume "decimal i = ''null''"
  then have "last (decimal i) = CHR ''l''" by simp
  then show False using decimal_last [of i] digit_char_not_l [of i] by simp
qed

lemma get_property_string_null: "get_property (SItem s) ''null'' = VUndefined"
  by (simp add: find_None_iff decimal_not_null split: option.splits)

lemma string_item_null_text:
  "is_string_item x \<Longrightarrow> js_String (get_property x (property_key None)) = ''undefined''"
  by (cases x) (simp_all add: property_key_def get_property_string_null del: get_property.simps)

lemma filter_const: "filter (\<lambda>x. b) xs = (if b then xs else [])"
  by (induction xs) simp_all

text \<open>
  C3. On a non-empty list of string items, with settings whose
  \<open>minimum_length_for_search\<close> is positive and a search string in the exact tier,
  \<open>fuzzySearch\<close> returns all the items when the text \<open>undefined\<close> contains the search
  string (both in lower case unless the match is case sensitive), and no item otherwise.
\<close>

theorem string_items_all_or_nothing:
  assumes "items \<noteq> []"
    and "\<forall>x \<in> set items. is_string_item x"
    and "settings_or_default searchSettings = Inr st"
    and "0 < minimum_length_for_search st"
    and "minimum_length_for_search st \<le> int (length q)"
    and "int (length q) < minimum_length_for_fuzzy_match st"
  shows "fuzzySearch q items searchSettings =
     Inr (if js_includes
               (if case_sensitive_match st then ''undefined'' else toLowerCase ''undefined'')
               (if case_sensitive_match st then q else toLowerCase q)
          then items else [])"
proof -
  have q: "q \<noteq> []" using assms(4,5) by auto
  have hd: "is_string_item (hd items)" using assms(1,2) by simp
  have undef: "js_String (get_property x (property_key None)) = ''undefined''"
    if "x \<in> set items" for x
    using that assms(2) by (simp add: string_item_null_text)
  have f1: "filter (\<lambda>x. js_includes (js_String (get_property x (property_key None))) q) items
      = filter (\<lambda>x. js_includes ''undefined'' q) items"
    by (rule filter_cong) (simp_all add: undef)
  have f2: "filter (\<lambda>x. js_includes (toLowerCase (js_String (get_property x (property_key None))))
         (toLowerCase q)) items
      = filter (\<lambda>x. js_includes (toLowerCase ''undefined'') (toLowerCase q)) items"
    by (rule filter_cong) (simp_all add: undef)
  show ?thesis
    using q hd assms(1,3,5,6)
    by (simp add: fuzzySearch_def fuzzySearchByProperty_def f1 f2 filter_const)
qed

theorem string_items_all_or_nothing_witness:
  "fuzzySearch ''De'' [SItem ''hello'', SItem ''world''] None
     = Inr [SItem ''hello'', SItem ''world'']
   \<and> fuzzySearch ''he'' [SItem ''hello'', SItem ''world''] None = Inr []"
proof -
  have s: "settings_or_default None = Inr default_settings"
    by (simp add: settings_or_default_def new_FuzzyMatchSettings_no_arguments)
  have yes: "js_includes (toLowerCase ''undefined'') (toLowerCase ''De'')"
    by code_simp
  have no: "\<not> js_includes (toLowerCase ''undefined'') (toLowerCase ''he'')"
    by code_simp
  have "fuzzySearch ''De'' [SItem ''hello'', SItem ''world''] None
     = Inr [SItem ''hello'', SItem ''world'']"
    using string_items_all_or_nothing
            [of "[SItem ''hello'', SItem ''world'']" None default_settings "''De''"] s yes
    by (simp add: default_settings_def)
  moreover have "fuzzySearch ''he'' [SItem ''hello'', SItem ''world''] None = Inr []"
    using string_items_all_or_nothing
            [of "[SItem ''hello'', SItem ''world'']" None default_settings "''he''"] s no
    by (simp add: default_settings_def)
  ultimately show ?thesis by simp
qed

section \<open>The fuzzy tier\<close>

text \<open>
  The count the inner loop returns is at most the bound exactly when the count over the
  rest of the window, added to the count on entry, is: once the count is above the bound
  it only grows.
\<close>

lemma for_loop_le_iff:
  "left \<le> i \<Longrightarrow>
   (for_loop q t mx n left i c \<le> mx)
     = (c + int (length (filter (\<lambda>k. js_index q k \<noteq> js_index t (left + k)) [i - left ..< n]))
          \<le> mx)"
proof (induction q t mx n left i c rule: for_loop.induct)
  case (1 q t mx n left i c)
  show ?case
  proof (cases "i < left + n")
    case False
    then show ?thesis using "1.prems" by (subst for_loop.simps) simp
  next
    case True
    then have upt: "[i - left ..< n] = (i - left) # [Suc i - left ..< n]"
      using "1.prems" by (simp add: upt_conv_Cons Suc_diff_le)
    have idx: "left + (i - left) = i" using "1.prems" by simp
    show ?thesis
    proof (cases "js_index q (i - left) \<noteq> js_index t i")
      case mism: True
      show ?thesis
      proof (cases "c + 1 > mx")
        case True
        then show ?thesis using \<open>i < left + n\<close> mism
          by (subst for_loop.simps) (simp add: upt idx)
      next
        case False
        then show ?thesis using \<open>i < left + n\<close> mism "1.IH"(1) "1.prems"
          by (subst for_loop.simps) (simp add: upt idx add.assoc)
      qed
    next
      case False
      then show ?thesis using \<open>i < left + n\<close> "1.IH"(2) "1.prems"
        by (subst for_loop.simps) (simp add: upt idx)
    qed
  qed
qed

lemma zip_mismatches:
  "length xs = length ys \<Longrightarrow>
   length (filter (\<lambda>(a, b). a \<noteq> b) (zip xs ys))
     = length (filter (\<lambda>k. xs ! k \<noteq> ys ! k) [0 ..< length xs])"
proof (induction xs ys rule: list_induct2)
  case Nil
  then show ?case by simp
next
  case (Cons x xs y ys)
  have "[0 ..< length (x # xs)] = 0 # map Suc [0 ..< length xs]"
    by (simp add: upt_conv_Cons map_Suc_upt del: upt_Suc)
  then show ?case using Cons.IH by (simp add: filter_map comp_def)
qed

lemma window_mismatches:
  assumes "left + length q \<le> length t"
  shows "length (filter (\<lambda>k. js_index q k \<noteq> js_index t (left + k)) [0 ..< length q])
     = mismatch_count q (window t left (length q))"
proof -
  have len: "length (window t left (length q)) = length q"
    using assms by (simp add: window_def)
  have "filter (\<lambda>k. js_index q k \<noteq> js_index t (left + k)) [0 ..< length q]
      = filter (\<lambda>k. q ! k \<noteq> window t left (length q) ! k) [0 ..< length q]"
    using assms by (intro filter_cong) (auto simp: js_index_def window_def)
  then show ?thesis
    using zip_mismatches [of q "window t left (length q)"] len
    by (simp add: mismatch_count_def)
qed

lemma while_loop_list_ex:
  "while_loop q t mx n left
     = list_ex (\<lambda>l. for_loop q t mx n l l 0 \<le> mx) [left ..< Suc (length t) - n]"
proof (induction q t mx n left rule: while_loop.induct)
  case (1 q t mx n left)
  show ?case
  proof (cases "int left + int n - 1 < int (length t)")
    case True
    then have "left < Suc (length t) - n" by linarith
    then have upt: "[left ..< Suc (length t) - n] = left # [Suc left ..< Suc (length t) - n]"
      by (simp add: upt_conv_Cons)
    show ?thesis using True "1.IH"
      by (subst while_loop.simps) (simp add: upt)
  next
    case False
    then have "\<not> left < Suc (length t) - n" by linarith
    then show ?thesis using False by (subst while_loop.simps) simp
  qed
qed

lemma while_loop_reference:
  "while_loop q t mx (length q) 0 = reference_scan q t mx"
proof -
  have "(for_loop q t mx (length q) l l 0 \<le> mx)
      = (int (mismatch_count q (window t l (length q))) \<le> mx)"
    if "l \<in> set [0 ..< Suc (length t) - length q]" for l
  proof -
    from that have "l + length q \<le> length t" by auto
    then show ?thesis
      using for_loop_le_iff [of l l q t mx "length q" 0] window_mismatches [of l q t]
      by simp
  qed
  then show ?thesis
    unfolding while_loop_list_ex reference_scan_def list_ex_iff by blast
qed

lemma items_loop_filter:
  "items_loop st p q mx n xs result
     = result @ filter (\<lambda>x. while_loop q (item_text st p x) mx n 0) xs"
  by (induction xs arbitrary: result) simp_all


lemma length_toLowerCase: "length (toLowerCase s) = length s"
  by (simp add: toLowerCase_def)

lemma fuzzy_tier_filter:
  assumes "settings_or_default searchSettings = Inr st"
    and "q \<noteq> []"
    and "minimum_length_for_search st \<le> int (length q)"
    and "minimum_length_for_fuzzy_match st \<le> int (length q)"
    and "fuzzySearchByProperty q items p searchSettings \<noteq> Inl StringPropertyRequired"
  shows "fuzzySearchByProperty q items p searchSettings =
     Inr (filter (\<lambda>x. reference_scan (if case_sensitive_match st then q else toLowerCase q)
                        (item_text st p x)
                        (int (length q) * percentage_allowed_mismatch st div 100))
            items)"
proof (cases "items = []")
  case True
  then show ?thesis by (simp add: fuzzySearchByProperty_def)
next
  case False
  have r: "while_loop (toLowerCase q) t mx (length q) 0 = reference_scan (toLowerCase q) t mx"
    for t mx
    using while_loop_reference [of "toLowerCase q" t mx] by (simp add: length_toLowerCase)
  show ?thesis
    using assms False
    by (auto simp: fuzzySearchByProperty_def Let_def items_loop_filter while_loop_reference r
             split: if_splits)
qed

lemma reference_scan_mono:
  "reference_scan q t mx \<Longrightarrow> mx \<le> mx' \<Longrightarrow> reference_scan q t mx'"
  unfolding reference_scan_def list_ex_iff by force

lemma mismatch_count_same: "mismatch_count q q = 0"
  by (simp add: mismatch_count_def zip_same_conv_map filter_map comp_def)

lemma reference_scan_sublist:
  assumes "sublist q t" and "0 \<le> mx"
  shows "reference_scan q t mx"
proof -
  from assms(1) obtain ps ss where t: "t = ps @ q @ ss"
    by (auto simp: sublist_def)
  have "window t (length ps) (length q) = q" by (simp add: t window_def)
  moreover have "length ps \<in> set [0 ..< Suc (length t) - length q]" by (simp add: t)
  ultimately show ?thesis
    using assms(2) unfolding reference_scan_def list_ex_iff
    by (metis mismatch_count_same of_nat_0)
qed

lemma subseq_filter_mono:
  "(\<And>x. x \<in> set xs \<Longrightarrow> P x \<Longrightarrow> Q x) \<Longrightarrow> subseq (filter P xs) (filter Q xs)"
  by (induction xs) auto

lemma max_mismatch_mono:
  "p1 \<le> p2 \<Longrightarrow> int n * p1 div 100 \<le> int n * p2 div 100"
  by (simp add: zdiv_mono1 mult_left_mono)

text \<open>
  C5. The loops of the fuzzy tier accept a text exactly when the reference scan does,
  which counts every position of every window of the length of the search string; and
  when the search reaches the fuzzy tier without the usage error, its result is the items
  the reference scan accepts, at the bound \<open>floor(len(query) * percentage / 100)\<close>.
\<close>

theorem early_exit_is_reference_scan:
  assumes "settings_or_default searchSettings = Inr st"
    and "q \<noteq> []"
    and "minimum_length_for_search st \<le> int (length q)"
    and "minimum_length_for_fuzzy_match st \<le> int (length q)"
    and "fuzzySearchByProperty q items p searchSettings \<noteq> Inl StringPropertyRequired"
  shows "(\<forall>s t mx. while_loop s t mx (length s) 0 = reference_scan s t mx)
    \<and> fuzzySearchByProperty q items p searchSettings =
     Inr (filter (\<lambda>x. reference_scan (if case_sensitive_match st then q else toLowerCase q)
                        (item_text st p x)
                        (int (length q) * percentage_allowed_mismatch st div 100))
            items)"
  using fuzzy_tier_filter [OF assms] while_loop_reference by simp

theorem early_exit_is_reference_scan_witness:
  "fuzzySearchByProperty ''hellow''
      [SItem ''Hello World'', OItem [(''name'', VStr ''yellow'')], SItem ''help'']
      None None
   = Inr (filter (\<lambda>x. reference_scan (toLowerCase ''hellow'')
                         (item_text default_settings None x) 1)
            [SItem ''Hello World'', OItem [(''name'', VStr ''yellow'')], SItem ''help''])
   \<and> fuzzySearchByProperty ''hellow''
      [SItem ''Hello World'', OItem [(''name'', VStr ''yellow'')], SItem ''help'']
      None None = Inr [SItem ''Hello World'']"
proof -
  let ?items = "[SItem ''Hello World'', OItem [(''name'', VStr ''yellow'')], SItem ''help'']"
  have s: "settings_or_default None = Inr default_settings"
    by (simp add: settings_or_default_def new_FuzzyMatchSettings_no_arguments)
  have e: "fuzzySearchByProperty ''hellow'' ?items None None = Inr [SItem ''Hello World'']"
    by code_simp
  have "fuzzySearchByProperty ''hellow'' ?items None None
     = Inr (filter (\<lambda>x. reference_scan (toLowerCase ''hellow'')
                         (item_text default_settings None x) 1) ?items)"
    using early_exit_is_reference_scan [of None default_settings "''hellow''" ?items None] s e
    by (simp add: default_settings_def)
  then show ?thesis using e by simp
qed

text \<open>
  C4, amended. With settings whose \<open>minimum_length_for_search\<close> is positive and whose
  percentage is not negative, and a search string at least as long as both minimum
  lengths, a search that does not raise the usage error returns every item whose text
  (in lower case unless the match is case sensitive) contains the search string (likewise)
  as a contiguous run.
\<close>

theorem exact_occurrence_is_returned:
  assumes "settings_or_default searchSettings = Inr st"
    and "0 < minimum_length_for_search st"
    and "0 \<le> percentage_allowed_mismatch st"
    and "minimum_length_for_search st \<le> int (length q)"
    and "minimum_length_for_fuzzy_match st \<le> int (length q)"
    and "fuzzySearchByProperty q items p searchSettings \<noteq> Inl StringPropertyRequired"
    and "x \<in> set items"
    and "sublist (if case_sensitive_match st then q else toLowerCase q) (item_text st p x)"
  shows "\<exists>result. fuzzySearchByProperty q items p searchSettings = Inr result
            \<and> x \<in> set result"
proof -
  have q: "q \<noteq> []" using assms(2,4) by auto
  have "0 \<le> int (length q) * percentage_allowed_mismatch st div 100"
    using assms(3) by (simp add: pos_imp_zdiv_nonneg_iff)
  then have "reference_scan (if case_sensitive_match st then q else toLowerCase q)
      (item_text st p x) (int (length q) * percentage_allowed_mismatch st div 100)"
    using assms(8) by (rule reference_scan_sublist [rotated])
  then show ?thesis
    using fuzzy_tier_filter [OF assms(1) q assms(4,5,6)] assms(7) by simp
qed

theorem exact_occurrence_is_returned_witness:
  "\<exists>result. fuzzySearchByProperty ''World''
       [SItem ''abc'', OItem [(''name'', VStr ''Hello world!'')]] (Some ''name'') None
         = Inr result
     \<and> OItem [(''name'', VStr ''Hello world!'')] \<in> set result"
proof -
  let ?x = "OItem [(''name'', VStr ''Hello world!'')]"
  have s: "settings_or_default None = Inr default_settings"
    by (simp add: settings_or_default_def new_FuzzyMatchSettings_no_arguments)
  have e: "fuzzySearchByProperty ''World'' [SItem ''abc'', ?x] (Some ''name'') None
      \<noteq> Inl StringPropertyRequired"
    by code_simp
  have sub: "sublist (toLowerCase ''World'') (item_text default_settings (Some ''name'') ?x)"
    by code_simp
  show ?thesis
    using exact_occurrence_is_returned
       [of None default_settings "''World''" "[SItem ''abc'', ?x]" "Some ''name''" ?x] s e sub
    by (simp add: default_settings_def)
qed

text \<open>
  C4 as stated fails when \<open>minimum_length_for_search\<close> is above
  \<open>minimum_length_for_fuzzy_match\<close>, which the constructor accepts: a search string of
  length 7 with the minimum lengths 10 and 5 is at least as long as the second one, the
  item is the search string itself, and the test of line 133 returns the empty list.
\<close>

theorem exact_occurrence_below_minimum_length_for_search:
  "new_FuzzyMatchSettings (Some 10) (Some 5) (Some 25) None
     = Inr \<lparr> minimum_length_for_search = 10, minimum_length_for_fuzzy_match = 5,
             percentage_allowed_mismatch = 25, case_sensitive_match = False \<rparr>
   \<and> minimum_length_for_fuzzy_match
        \<lparr> minimum_length_for_search = 10, minimum_length_for_fuzzy_match = 5,
          percentage_allowed_mismatch = 25, case_sensitive_match = False \<rparr>
        \<le> int (length ''abcdefg'')
   \<and> sublist (toLowerCase ''abcdefg'') (toLowerCase ''abcdefg'')
   \<and> fuzzySearchByProperty ''abcdefg'' [SItem ''abcdefg''] None
        (Some \<lparr> minimum_length_for_search = 10, minimum_length_for_fuzzy_match = 5,
                percentage_allowed_mismatch = 25, case_sensitive_match = False \<rparr>)
       = Inr []"
  by code_simp

lemma usage_error_iff:
  "(fuzzySearchByProperty q items p (Some st) = Inl StringPropertyRequired)
     = (q \<noteq> [] \<and> items \<noteq> [] \<and> \<not> is_string_item (hd items)
        \<and> (p = None \<or> \<not> typeof_string (get_property (hd items) (property_key p))))"
  by (auto simp: fuzzySearchByProperty_def settings_or_default_def Let_def)

lemma percentage_only_in_fuzzy_tier:
  "\<not> (q \<noteq> [] \<and> items \<noteq> [] \<and> minimum_length_for_search st \<le> int (length q)
        \<and> minimum_length_for_fuzzy_match st \<le> int (length q)) \<Longrightarrow>
   fuzzySearchByProperty q items p (Some (st\<lparr>percentage_allowed_mismatch := pct\<rparr>))
     = fuzzySearchByProperty q items p (Some st)"
  by (auto simp: fuzzySearchByProperty_def settings_or_default_def Let_def)

text \<open>
  C6. When a search returns a list with some settings, the search with the same settings
  but a larger percentage returns a list too, and the first list is a subsequence of the
  second: every item returned at the lower percentage is returned at the higher one.
\<close>

theorem larger_percentage_keeps_results:
  assumes "percentage_allowed_mismatch st \<le> pct"
    and "fuzzySearchByProperty q items p (Some st) = Inr r1"
  shows "\<exists>r2. fuzzySearchByProperty q items p
                 (Some (st\<lparr>percentage_allowed_mismatch := pct\<rparr>)) = Inr r2
            \<and> subseq r1 r2 \<and> set r1 \<subseteq> set r2"
proof (cases "q \<noteq> [] \<and> items \<noteq> [] \<and> minimum_length_for_search st \<le> int (length q)
        \<and> minimum_length_for_fuzzy_match st \<le> int (length q)")
  case False
  then show ?thesis
    using percentage_only_in_fuzzy_tier [of q items st p pct] assms(2) by simp
next
  case True
  let ?st' = "st\<lparr>percentage_allowed_mismatch := pct\<rparr>"
  let ?q = "if case_sensitive_match st then q else toLowerCase q"
  let ?P = "\<lambda>x. reference_scan ?q (item_text st p x)
                 (int (length q) * percentage_allowed_mismatch st div 100)"
  let ?Q = "\<lambda>x. reference_scan ?q (item_text st p x) (int (length q) * pct div 100)"
  have ne: "fuzzySearchByProperty q items p (Some st) \<noteq> Inl StringPropertyRequired"
    using assms(2) by simp
  then have ne': "fuzzySearchByProperty q items p (Some ?st') \<noteq> Inl StringPropertyRequired"
    by (simp add: usage_error_iff)
  have txt': "item_text ?st' p x = item_text st p x" for x
    by (simp add: item_text_def split: item.splits)
  have r1: "r1 = filter ?P items"
    using fuzzy_tier_filter [of "Some st" st q items p] True ne assms(2)
    by (simp add: settings_or_default_def)
  have r2: "fuzzySearchByProperty q items p (Some ?st') = Inr (filter ?Q items)"
    using fuzzy_tier_filter [of "Some ?st'" ?st' q items p] True ne'
    by (simp add: settings_or_default_def txt')
  have imp: "?P x \<Longrightarrow> ?Q x" for x
    using reference_scan_mono max_mismatch_mono [OF assms(1)] by blast
  have "subseq (filter ?P items) (filter ?Q items)"
    by (rule subseq_filter_mono) (rule imp)
  moreover have "set (filter ?P items) \<subseteq> set (filter ?Q items)"
    using imp by auto
  ultimately show ?thesis using r1 r2 by simp
qed

theorem larger_percentage_keeps_results_witness:
  "fuzzySearchByProperty ''hellow'' [SItem ''hellow there'', SItem ''yellow'', SItem ''abc''] None
     (Some (default_settings\<lparr>percentage_allowed_mismatch := 10\<rparr>))
     = Inr [SItem ''hellow there'']
   \<and> (\<exists>r2. fuzzySearchByProperty ''hellow''
         [SItem ''hellow there'', SItem ''yellow'', SItem ''abc''] None
         (Some (default_settings\<lparr>percentage_allowed_mismatch := 10,
                                  percentage_allowed_mismatch := 25\<rparr>)) = Inr r2
       \<and> subseq [SItem ''hellow there''] r2 \<and> set [SItem ''hellow there''] \<subseteq> set r2)"
proof -
  let ?items = "[SItem ''hellow there'', SItem ''yellow'', SItem ''abc'']"
  let ?st = "default_settings\<lparr>percentage_allowed_mismatch := 10\<rparr>"
  have p: "percentage_allowed_mismatch ?st \<le> 25" by (simp add: default_settings_def)
  have e: "fuzzySearchByProperty ''hellow'' ?items None (Some ?st) = Inr [SItem ''hellow there'']"
    by code_simp
  show ?thesis
    using larger_percentage_keeps_results [OF p e] e by simp
qed

section \<open>Case\<close>

lemma lower_unit_idem: "lower_unit (lower_unit c) = lower_unit c"
  by (auto simp: lower_unit_def Let_def)

lemma toLowerCase_idem: "toLowerCase (toLowerCase s) = toLowerCase s"
  by (simp add: toLowerCase_def lower_unit_idem)

lemma lower_upper_units:
  assumes "(of_char c :: nat) < 128"
  shows "map lower_unit (upper_units c) = [lower_unit c]"
proof (cases "97 \<le> (of_char c :: nat) \<and> (of_char c :: nat) \<le> 122")
  case True
  define n where "n = (of_char c :: nat)"
  have n: "97 \<le> n" "n \<le> 122" using True by (simp_all add: n_def)
  have m: "(n - 32) mod 256 = n - 32" using n by simp
  have r: "65 \<le> n - 32" "n - 32 \<le> 90" using n by simp_all
  have "n - 32 + 32 = n" using n by simp
  then have undo: "char_of (n - 32 + 32) = c" by (simp add: n_def)
  have up: "upper_units c = [char_of (n - 32)]"
    using n by (simp add: upper_units_def Let_def n_def [symmetric])
  have "lower_unit (char_of (n - 32)) = c"
    using r undo by (simp add: lower_unit_def Let_def m)
  moreover have "lower_unit c = c"
    using n by (simp add: lower_unit_def Let_def n_def [symmetric])
  ultimately show ?thesis by (simp add: up)
next
  case False
  then show ?thesis using assms
    by (auto simp: upper_units_def Let_def)
qed

lemma toLowerCase_toUpperCase:
  "ascii s \<Longrightarrow> toLowerCase (toUpperCase s) = toLowerCase s"
  by (induction s) (simp_all add: ascii_def toLowerCase_def toUpperCase_def lower_upper_units)


lemma keeps_lower_value_toLowerCase: "keeps_lower_value toLowerCase v"
  by (cases v) (simp_all add: toLowerCase_idem)

lemma keeps_lower_toLowerCase: "keeps_lower toLowerCase x"
  by (cases x) (simp_all add: toLowerCase_idem list_all_iff keeps_lower_value_toLowerCase split: prod.splits)

lemma keeps_lower_value_toUpperCase: "ascii_value v \<Longrightarrow> keeps_lower_value toUpperCase v"
  by (cases v) (simp_all add: toLowerCase_toUpperCase)

lemma keeps_lower_toUpperCase: "ascii_item x \<Longrightarrow> keeps_lower toUpperCase x"
  by (cases x) (auto simp: toLowerCase_toUpperCase list_all_iff keeps_lower_value_toUpperCase)

lemma same_lower_length:
  "toLowerCase s' = toLowerCase s \<Longrightarrow> length s' = length s"
  by (metis length_toLowerCase)

lemma same_lower_nth:
  assumes "toLowerCase s' = toLowerCase s" and "i < length s"
  shows "toLowerCase [s' ! i] = toLowerCase [s ! i]"
proof -
  have "i < length s'" using assms(2) same_lower_length [OF assms(1)] by simp
  then have "lower_unit (s' ! i) = toLowerCase s' ! i" by (simp add: toLowerCase_def)
  also have "\<dots> = lower_unit (s ! i)" using assms by (simp add: toLowerCase_def)
  finally show ?thesis by (simp add: toLowerCase_def)
qed

lemma find_index_bound: "find P [0 ..< n] = Some i \<Longrightarrow> i < n"
  by (auto simp: find_Some_iff)

lemma map_of_map_value:
  "map_of (map (\<lambda>(k, v). (k, map_value f v)) ps) k = map_option (map_value f) (map_of ps k)"
  by (induction ps) auto

lemma is_string_item_map_item: "is_string_item (map_item f x) = is_string_item x"
  by (cases x) simp_all

lemma typeof_string_map_value: "typeof_string (map_value f v) = typeof_string v"
  by (cases v) simp_all

lemma typeof_string_map_item:
  assumes "keeps_lower f x"
  shows "typeof_string (get_property (map_item f x) k) = typeof_string (get_property x k)"
proof (cases x)
  case (SItem s)
  then have "toLowerCase (f s) = toLowerCase s" using assms by simp
  then have "length (f s) = length s" by (rule same_lower_length)
  then show ?thesis using SItem by (simp split: option.splits)
next
  case (OItem ps)
  then show ?thesis
    by (simp add: map_of_map_value typeof_string_map_value split: option.splits)
qed

lemma keeps_lower_value_text:
  "keeps_lower_value f v \<Longrightarrow> toLowerCase (js_String (map_value f v)) = toLowerCase (js_String v)"
  by (cases v) simp_all

lemma lower_text_map_item:
  assumes "keeps_lower f x"
  shows "toLowerCase (js_String (get_property (map_item f x) k))
     = toLowerCase (js_String (get_property x k))"
proof (cases x)
  case (SItem s)
  then have eq: "toLowerCase (f s) = toLowerCase s" using assms by simp
  then have len: "length (f s) = length s" by (rule same_lower_length)
  show ?thesis
  proof (cases "find (\<lambda>i. decimal i = k) [0 ..< length s]")
    case None
    then show ?thesis using SItem len by simp
  next
    case (Some i)
    then have "i < length s" by (rule find_index_bound)
    then show ?thesis using SItem len Some same_lower_nth [OF eq] by simp
  qed
next
  case (OItem ps)
  show ?thesis
  proof (cases "map_of ps k")
    case None
    then show ?thesis using OItem by (simp add: map_of_map_value)
  next
    case (Some v)
    then have "(k, v) \<in> set ps" by (rule map_of_SomeD)
    then have "keeps_lower_value f v" using assms OItem by (auto simp: list_all_iff)
    then show ?thesis using OItem Some by (simp add: map_of_map_value keeps_lower_value_text)
  qed
qed

lemma item_text_map_item:
  assumes "\<not> case_sensitive_match st" and "keeps_lower f x"
  shows "item_text st p (map_item f x) = item_text st p x"
proof (cases x)
  case (SItem s)
  then show ?thesis using assms by (simp add: item_text_def)
next
  case (OItem ps)
  then have "item_text st p y = toLowerCase (js_String (get_property y (property_key p)))"
    if "\<not> is_string_item y" for y
    using that assms(1) by (cases y) (simp_all add: item_text_def)
  then show ?thesis
    using OItem lower_text_map_item [OF assms(2)] by (simp add: is_string_item_map_item)
qed


lemma search_same_lower_query:
  assumes "\<not> case_sensitive_match st"
    and "settings_or_default searchSettings = Inr st"
    and "toLowerCase q' = toLowerCase q"
  shows "fuzzySearchByProperty q' items p searchSettings
     = fuzzySearchByProperty q items p searchSettings"
proof -
  have len: "length q' = length q" using assms(3) by (rule same_lower_length)
  then have "(q' = []) = (q = [])" by (metis length_0_conv)
  then show ?thesis
    using assms len by (simp add: fuzzySearchByProperty_def Let_def)
qed

lemma search_map_items:
  assumes "\<not> case_sensitive_match st"
    and "settings_or_default searchSettings = Inr st"
    and "\<forall>x \<in> set items. keeps_lower f x"
  shows "fuzzySearchByProperty q (map (map_item f) items) p searchSettings
     = map_sum id (map (map_item f)) (fuzzySearchByProperty q items p searchSettings)"
proof (cases "items = []")
  case True
  then show ?thesis by (simp add: fuzzySearchByProperty_def)
next
  case False
  let ?h = "map_item f"
  let ?k = "property_key p"
  have kl: "keeps_lower f (hd items)" using False assms(3) by simp
  have hd: "hd (map ?h items) = ?h (hd items)" using False by (simp add: hd_map)
  have ty: "typeof_string (get_property (?h (hd items)) ?k)
      = typeof_string (get_property (hd items) ?k)"
    using kl by (rule typeof_string_map_item)
  have exact: "filter (\<lambda>x. js_includes (toLowerCase (js_String (get_property x ?k)))
                          (toLowerCase q)) (map ?h items)
      = map ?h (filter (\<lambda>x. js_includes (toLowerCase (js_String (get_property x ?k)))
                          (toLowerCase q)) items)"
  proof -
    have "filter ((\<lambda>x. js_includes (toLowerCase (js_String (get_property x ?k)))
                          (toLowerCase q)) \<circ> ?h) items
        = filter (\<lambda>x. js_includes (toLowerCase (js_String (get_property x ?k)))
                          (toLowerCase q)) items"
      using assms(3) by (intro filter_cong) (simp_all add: lower_text_map_item)
    then show ?thesis by (simp add: filter_map)
  qed
  have fuzzy: "items_loop st p s mx n (map ?h items) []
      = map ?h (items_loop st p s mx n items [])" for s mx n
  proof -
    have "filter ((\<lambda>x. while_loop s (item_text st p x) mx n 0) \<circ> ?h) items
        = filter (\<lambda>x. while_loop s (item_text st p x) mx n 0) items"
      using assms(1,3) by (intro filter_cong) (simp_all add: item_text_map_item)
    then show ?thesis by (simp add: items_loop_filter filter_map)
  qed
  show ?thesis
    using False assms(1,2)
    by (simp add: fuzzySearchByProperty_def Let_def hd is_string_item_map_item ty exact fuzzy)
qed

text \<open>
  C9, amended. With a match that is not case sensitive, the search returns the same
  result when the search string is replaced by its lower-case form, and when a search
  string of ASCII characters is replaced by its upper-case form; and when the texts of the
  items are replaced by their lower-case forms, or texts of ASCII characters by their
  upper-case forms, the search returns the same items with the texts replaced (or raises
  the same error).
\<close>

theorem case_of_query_and_text:
  assumes "\<not> case_sensitive_match st"
    and "settings_or_default searchSettings = Inr st"
  shows "fuzzySearchByProperty (toLowerCase q) items p searchSettings
       = fuzzySearchByProperty q items p searchSettings
    \<and> (ascii q \<longrightarrow>
         fuzzySearchByProperty (toUpperCase q) items p searchSettings
           = fuzzySearchByProperty q items p searchSettings)
    \<and> fuzzySearchByProperty q (map (map_item toLowerCase) items) p searchSettings
       = map_sum id (map (map_item toLowerCase))
           (fuzzySearchByProperty q items p searchSettings)
    \<and> (list_all ascii_item items \<longrightarrow>
         fuzzySearchByProperty q (map (map_item toUpperCase) items) p searchSettings
           = map_sum id (map (map_item toUpperCase))
               (fuzzySearchByProperty q items p searchSettings))"
proof -
  have a: "fuzzySearchByProperty (toLowerCase q) items p searchSettings
       = fuzzySearchByProperty q items p searchSettings"
    using assms by (rule search_same_lower_query) (rule toLowerCase_idem)
  have b: "fuzzySearchByProperty (toUpperCase q) items p searchSettings
           = fuzzySearchByProperty q items p searchSettings" if "ascii q"
    using assms by (rule search_same_lower_query) (rule toLowerCase_toUpperCase [OF that])
  have c: "fuzzySearchByProperty q (map (map_item toLowerCase) items) p searchSettings
       = map_sum id (map (map_item toLowerCase))
           (fuzzySearchByProperty q items p searchSettings)"
    using assms by (rule search_map_items) (simp add: keeps_lower_toLowerCase)
  have d: "fuzzySearchByProperty q (map (map_item toUpperCase) items) p searchSettings
           = map_sum id (map (map_item toUpperCase))
               (fuzzySearchByProperty q items p searchSettings)" if "list_all ascii_item items"
    using assms
    by (rule search_map_items) (use that in \<open>simp add: keeps_lower_toUpperCase list_all_iff\<close>)
  show ?thesis using a b c d by blast
qed

theorem case_of_query_and_text_witness:
  "fuzzySearchByProperty (toLowerCase ''heLLo'')
       [SItem ''why Hello There'', OItem [(''name'', VStr ''HELLO'')], SItem ''help'']
       (Some ''name'') None
     = fuzzySearchByProperty ''heLLo''
       [SItem ''why Hello There'', OItem [(''name'', VStr ''HELLO'')], SItem ''help'']
       (Some ''name'') None
   \<and> fuzzySearchByProperty (toUpperCase ''heLLo'')
       [SItem ''why Hello There'', OItem [(''name'', VStr ''HELLO'')], SItem ''help'']
       (Some ''name'') None
     = fuzzySearchByProperty ''heLLo''
       [SItem ''why Hello There'', OItem [(''name'', VStr ''HELLO'')], SItem ''help'']
       (Some ''name'') None
   \<and> fuzzySearchByProperty ''heLLo''
       (map (map_item toLowerCase)
          [SItem ''why Hello There'', OItem [(''name'', VStr ''HELLO'')], SItem ''help''])
       (Some ''name'') None
     = map_sum id (map (map_item toLowerCase))
         (fuzzySearchByProperty ''heLLo''
            [SItem ''why Hello There'', OItem [(''name'', VStr ''HELLO'')], SItem ''help'']
            (Some ''name'') None)
   \<and> fuzzySearchByProperty ''heLLo''
       (map (map_item toUpperCase)
          [SItem ''why Hello There'', OItem [(''name'', VStr ''HELLO'')], SItem ''help''])
       (Some ''name'') None
     = map_sum id (map (map_item toUpperCase))
         (fuzzySearchByProperty ''heLLo''
            [SItem ''why Hello There'', OItem [(''name'', VStr ''HELLO'')], SItem ''help'']
            (Some ''name'') None)"
proof -
  let ?items = "[SItem ''why Hello There'', OItem [(''name'', VStr ''HELLO'')], SItem ''help'']"
  have s: "settings_or_default None = Inr default_settings"
    by (simp add: settings_or_default_def new_FuzzyMatchSettings_no_arguments)
  have c: "\<not> case_sensitive_match default_settings"
    by (simp add: default_settings_def)
  have q: "ascii ''heLLo''"
    by code_simp
  have i: "list_all ascii_item ?items"
    by code_simp
  show ?thesis
    using case_of_query_and_text [OF c s, of "''heLLo''" ?items "Some ''name''"] q i
    by simp
qed

text \<open>
  C9 as stated fails for the upper-case form of a text that holds the sharp s, \<open>0xDF\<close>:
  its upper-case form is \<open>SS\<close>, whose lower-case form \<open>ss\<close> is another text. With the
  default settings the search string \<open>0xDF\<close> finds the object whose property is that
  string, and its upper-case form does not.
\<close>

theorem sharp_s_upper_case_changes_result:
  "\<not> case_sensitive_match default_settings
   \<and> settings_or_default None = Inr default_settings
   \<and> fuzzySearchByProperty [CHR 0xDF] [OItem [(''name'', VStr [CHR 0xDF])]] (Some ''name'') None
       = Inr [OItem [(''name'', VStr [CHR 0xDF])]]
   \<and> toUpperCase [CHR 0xDF] = ''SS''
   \<and> fuzzySearchByProperty (toUpperCase [CHR 0xDF]) [OItem [(''name'', VStr [CHR 0xDF])]]
         (Some ''name'') None
       = Inr []"
  by code_simp


end
